theory Spec2Isabelle
  imports Complex_Main
begin

section \<open>Python values and strings\<close>

text \<open>
  A Python \<open>str\<close> is a \<open>string\<close>; text outside ASCII stands as its UTF-8 bytes
  (the four box-drawing prefixes of \<open>_parse_output\<close>, the Chinese report text).
  Whitespace and digits are the ASCII ones of \<open>str.isspace\<close> and \<open>str.isdigit\<close>.
\<close>

definition nl :: string where
  "nl = [CHR 0x0A]"

definition py_isspace :: "char \<Rightarrow> bool" where
  "py_isspace c = (c \<in> set [CHR 0x09, CHR 0x0A, CHR 0x0B, CHR 0x0C, CHR 0x0D,
                              CHR 0x1C, CHR 0x1D, CHR 0x1E, CHR 0x1F, CHR 0x20])"

definition lstrip :: "string \<Rightarrow> string" where
  "lstrip s = dropWhile py_isspace s"

definition rstrip :: "string \<Rightarrow> string" where
  "rstrip s = rev (dropWhile py_isspace (rev s))"

definition strip :: "string \<Rightarrow> string" where
  "strip s = lstrip (rstrip s)"

text \<open>\<open>s.lstrip(chars)\<close>: drops every leading character that is one of \<open>chars\<close>.\<close>

definition lstrip_chars :: "string \<Rightarrow> string \<Rightarrow> string" where
  "lstrip_chars chars s = dropWhile (\<lambda>c. c \<in> set chars) s"

fun startswith :: "string \<Rightarrow> string \<Rightarrow> bool" where
  "startswith s [] = True"
| "startswith [] (p # ps) = False"
| "startswith (c # cs) (p # ps) = (c = p \<and> startswith cs ps)"

text \<open>\<open>sub in s\<close> on strings.\<close>

fun contains :: "string \<Rightarrow> string \<Rightarrow> bool" where
  "contains [] sub = (sub = [])"
| "contains (c # cs) sub = (startswith (c # cs) sub \<or> contains cs sub)"

definition ord :: "char \<Rightarrow> nat" where
  "ord c = of_char c"

definition lower_char :: "char \<Rightarrow> char" where
  "lower_char c = (if 65 \<le> ord c \<and> ord c \<le> 90 then char_of (ord c + 32) else c)"

definition lower :: "string \<Rightarrow> string" where
  "lower s = map lower_char s"

text \<open>\<open>s.split('\n')\<close>: the empty string splits into one empty piece.\<close>

fun split_nl :: "string \<Rightarrow> string list" where
  "split_nl [] = [[]]"
| "split_nl (c # cs) =
     (if c = CHR 0x0A then [] # split_nl cs
      else (case split_nl cs of [] \<Rightarrow> [[c]] | l # ls \<Rightarrow> (c # l) # ls))"

text \<open>
  \<open>s.split(sep)\<close> for a non-empty separator: matches are taken from the left and do
  not overlap. \<open>skip\<close> counts the characters of a match still to pass, \<open>cur\<close> is the
  piece being read.
\<close>

fun split_from :: "string \<Rightarrow> nat \<Rightarrow> string \<Rightarrow> string \<Rightarrow> string list" where
  "split_from sep skip cur [] = [cur]"
| "split_from sep skip cur (c # cs) =
     (if 0 < skip then split_from sep (skip - 1) cur cs
      else if sep \<noteq> [] \<and> startswith (c # cs) sep then cur # split_from sep (length sep - 1) [] cs
      else split_from sep 0 (cur @ [c]) cs)"

definition split_str :: "string \<Rightarrow> string \<Rightarrow> string list" where
  "split_str sep s = split_from sep 0 [] s"

definition is_digit :: "char \<Rightarrow> bool" where
  "is_digit c = (48 \<le> ord c \<and> ord c \<le> 57)"

definition isdigit :: "string \<Rightarrow> bool" where
  "isdigit s = (s \<noteq> [] \<and> list_all is_digit s)"

definition is_word :: "char \<Rightarrow> bool" where
  "is_word c = (is_digit c \<or> (97 \<le> ord c \<and> ord c \<le> 122) \<or> (65 \<le> ord c \<and> ord c \<le> 90)
                \<or> c = CHR ''_'')"

text \<open>
  \<open>int(s)\<close> on a string, base ten: surrounding whitespace is dropped, one sign is
  allowed, single underscores may stand between digits. \<open>None\<close> is the \<open>ValueError\<close>.
\<close>

fun no_double_underscore :: "string \<Rightarrow> bool" where
  "no_double_underscore (a # b # cs) = (\<not> (a = CHR ''_'' \<and> b = CHR ''_'') \<and> no_double_underscore (b # cs))"
| "no_double_underscore cs = True"

definition int_literal :: "string \<Rightarrow> bool" where
  "int_literal body =
     (body \<noteq> [] \<and> list_all (\<lambda>c. is_digit c \<or> c = CHR ''_'') body \<and> is_digit (hd body)
      \<and> is_digit (last body) \<and> no_double_underscore body)"

definition digits_value :: "string \<Rightarrow> int" where
  "digits_value ds = foldl (\<lambda>acc c. 10 * acc + (int (ord c) - 48)) 0 ds"

definition py_int :: "string \<Rightarrow> int option" where
  "py_int s =
     (let t = strip s;
          neg = startswith t ''-'';
          body = (if startswith t ''-'' \<or> startswith t ''+'' then tl t else t)
      in if int_literal body
         then Some ((if neg then -1 else 1) * digits_value (filter (\<lambda>c. c \<noteq> CHR ''_'') body))
         else None)"

text \<open>\<open>str(n)\<close> of an integer.\<close>

function str_nat :: "nat \<Rightarrow> string" where
  "str_nat n = (if n < 10 then [char_of (48 + n)] else str_nat (n div 10) @ [char_of (48 + n mod 10)])"
  by pat_completeness auto
termination
  by (relation "measure id") auto

definition str_int :: "int \<Rightarrow> string" where
  "str_int i = (if i < 0 then ''-'' @ str_nat (nat (- i)) else str_nat (nat i))"

text \<open>
  The values \<open>json.loads\<close> builds. A dict keeps its items in order; \<open>JNull\<close> is
  Python's \<open>None\<close>.
\<close>

datatype json =
    JNull
  | JBool bool
  | JInt int
  | JFloat real
  | JStr string
  | JArr "json list"
  | JObj "(string \<times> json) list"

type_synonym pydict = "(string \<times> json) list"

text \<open>
  \<open>json.loads\<close> is the standard library's; the model takes it as a parameter.
  \<open>None\<close> is its \<open>JSONDecodeError\<close>.
\<close>

type_synonym loads = "string \<Rightarrow> json option"

fun truthy :: "json \<Rightarrow> bool" where
  "truthy JNull = False"
| "truthy (JBool b) = b"
| "truthy (JInt i) = (i \<noteq> 0)"
| "truthy (JFloat r) = (r \<noteq> 0)"
| "truthy (JStr s) = (s \<noteq> [])"
| "truthy (JArr xs) = (xs \<noteq> [])"
| "truthy (JObj kvs) = (kvs \<noteq> [])"

text \<open>\<open>d.get(k)\<close>: \<open>None\<close> for a missing key.\<close>

definition dict_get :: "pydict \<Rightarrow> string \<Rightarrow> json" where
  "dict_get d k = (case map_of d k of None \<Rightarrow> JNull | Some v \<Rightarrow> v)"

section \<open>Exceptions, configuration, log\<close>

datatype exn =
    NoPostsFoundError string
  | CrawlTimeoutError string
  | TimeoutExpired
  | JSONDecodeError
  | ValueError string
  | TypeError string
  | AttributeError string
  | Exception string

text \<open>\<open>Config\<close>, with the durations in milliseconds where the source has float seconds.\<close>

record config =
  page_load_timeout :: int
  scroll_check_interval_ms :: nat
  scroll_max_attempts :: int
  scroll_no_new_threshold :: int
  scroll_max_consecutive_errors :: int
  scroll_early_stop_on_yesterday :: bool
  user_crawl_timeout :: int
  max_retries :: int
  browser_action_max_attempts :: int
  content_fetch_workers :: int
  user_crawl_workers :: int
  browser_max_restarts :: int
  browser_restart_backoff :: int

definition default_config :: config where
  "default_config =
     \<lparr> page_load_timeout = 5, scroll_check_interval_ms = 500, scroll_max_attempts = 10,
       scroll_no_new_threshold = 2, scroll_max_consecutive_errors = 3,
       scroll_early_stop_on_yesterday = True, user_crawl_timeout = 120, max_retries = 5,
       browser_action_max_attempts = 2, content_fetch_workers = 10, user_crawl_workers = 5,
       browser_max_restarts = 10, browser_restart_backoff = 30 \<rparr>"

datatype level = INFO | WARN | ERROR | DEBUG

type_synonym log_line = "level \<times> string"

section \<open>The control surface and the client's state\<close>

text \<open>
  What \<open>subprocess.run\<close> gives for one command: a completed process and its running
  time in milliseconds, the \<open>TimeoutExpired\<close> exception, or another exception (the
  tool is missing, say).
\<close>

record completed_process =
  returncode :: int
  stdout :: string
  stderr :: string

datatype proc_result =
    Completed completed_process nat
  | TimedOut
  | Failed string

text \<open>
  The world outside the program: the outcome of the \<open>n\<close>-th command it runs, the
  \<open>n\<close>-th random number it draws, and the wall-clock time (milliseconds since the
  epoch) at which the program starts.
\<close>

record world =
  proc :: "nat \<Rightarrow> proc_result"
  rand :: "nat \<Rightarrow> nat"
  start_epoch_ms :: int

text \<open>
  The mutable state: the two attributes of \<open>BrowserClient\<close> (\<open>target_id\<close> is \<open>None\<close>
  until \<open>navigate\<close> first assigns it), the log file, the commands run so far (oldest
  first), the clock in milliseconds and the number of random draws.
\<close>

record state =
  restart_count :: int
  target_id :: "json option"
  logged :: "log_line list"
  issued :: "string list list"
  clock :: nat
  draws :: nat

definition init_state :: state where
  "init_state = \<lparr> restart_count = 0, target_id = None, logged = [], issued = [], clock = 0, draws = 0 \<rparr>"

definition log_msg :: "level \<Rightarrow> string \<Rightarrow> state \<Rightarrow> state" where
  "log_msg lv m s = s\<lparr>logged := logged s @ [(lv, m)]\<rparr>"

definition sleep_ms :: "nat \<Rightarrow> state \<Rightarrow> state" where
  "sleep_ms d s = s\<lparr>clock := clock s + d\<rparr>"

text \<open>\<open>random.uniform(lo, hi)\<close> in milliseconds.\<close>

definition uniform_ms :: "world \<Rightarrow> nat \<Rightarrow> nat \<Rightarrow> state \<Rightarrow> nat \<times> state" where
  "uniform_ms w lo hi s = (lo + rand w (draws s) mod (hi - lo + 1), s\<lparr>draws := draws s + 1\<rparr>)"

text \<open>\<open>_run_command\<close>: the command is recorded, the clock advances.\<close>

definition run_command :: "world \<Rightarrow> string list \<Rightarrow> int \<Rightarrow> state \<Rightarrow> (exn + completed_process) \<times> state" where
  "run_command w args timeout s =
     (let r = proc w (length (issued s)); s1 = s\<lparr>issued := issued s @ [args]\<rparr>
      in case r of
           Completed p ms \<Rightarrow> (Inr p, sleep_ms ms s1)
         | TimedOut \<Rightarrow> (Inl TimeoutExpired, sleep_ms (nat (timeout * 1000)) s1)
         | Failed m \<Rightarrow> (Inl (Exception m), s1))"

section \<open>BrowserClient\<close>

subsection \<open>\<open>_parse_output\<close>\<close>

definition decorations :: "string list" where
  "decorations =
     [[CHR 0xE2, CHR 0x94, CHR 0x82], [CHR 0xE2, CHR 0x94, CHR 0x9C],
      [CHR 0xE2, CHR 0x95, CHR 0xAF], [CHR 0xE2, CHR 0x97, CHR 0x87]]"

definition json_opener :: "string \<Rightarrow> bool" where
  "json_opener ls = (ls \<noteq> [] \<and> (startswith ls ''{'' \<or> startswith ls [CHR 0x22] \<or> startswith ls ''[''))"

definition reply :: "json \<Rightarrow> pydict" where
  "reply v = [(''ok'', JBool True), (''result'', v)]"

text \<open>
  The first loop of \<open>_parse_output\<close>, over \<open>enumerate(lines)\<close>: it ends with
  \<open>json_start\<close> set, with a value returned, with the \<open>ValueError\<close> of \<open>int\<close>, or at
  the end of the lines with nothing found.
\<close>

datatype scan = JsonStart nat | Returned pydict | IntRaised string | Exhausted

fun scan_lines :: "string list \<Rightarrow> nat \<Rightarrow> scan" where
  "scan_lines [] i = Exhausted"
| "scan_lines (line # rest) i =
     (let line_stripped = strip line in
      if list_ex (startswith line_stripped) decorations then scan_lines rest (Suc i)
      else if json_opener line_stripped then JsonStart i
      else if line_stripped = ''true'' then Returned (reply (JBool True))
      else if line_stripped = ''false'' then Returned (reply (JBool False))
      else if isdigit (lstrip_chars ''-'' line_stripped) then
        (case py_int line_stripped of
           None \<Rightarrow> IntRaised line_stripped
         | Some n \<Rightarrow> Returned (reply (JInt n)))
      else scan_lines rest (Suc i))"

text \<open>What both \<open>try\<close> blocks do with a parsed \<open>response\<close>.\<close>

fun wrap_response :: "json \<Rightarrow> pydict" where
  "wrap_response (JStr r) = reply (JStr r)"
| "wrap_response (JObj d) = (if truthy (dict_get d ''ok'') then d else reply (dict_get d ''result''))"
| "wrap_response r = reply r"

text \<open>
  The second loop: each further line is appended before the text is tried, so the
  opening line alone is only tried by the final \<open>try\<close>, when no line follows it.
\<close>

fun accumulate :: "loads \<Rightarrow> string \<Rightarrow> string list \<Rightarrow> json option \<times> string" where
  "accumulate L json_text [] = (None, json_text)"
| "accumulate L json_text (l # ls) =
     (let json_text' = json_text @ nl @ l in
      case L json_text' of
        Some response \<Rightarrow> (Some response, json_text')
      | None \<Rightarrow> accumulate L json_text' ls)"

definition parse_output :: "loads \<Rightarrow> string \<Rightarrow> state \<Rightarrow> (exn + pydict option) \<times> state" where
  "parse_output L output s =
     (let lines = split_nl (strip output);
          not_found = log_msg DEBUG ''Cannot find valid output.''
      in case scan_lines lines 0 of
           Returned d \<Rightarrow> (Inr (Some d), s)
         | IntRaised t \<Rightarrow> (Inl (ValueError (''invalid literal for int() with base 10: '' @ t)), s)
         | Exhausted \<Rightarrow> (Inr None, not_found s)
         | JsonStart i \<Rightarrow>
             (case accumulate L (lines ! i) (drop (Suc i) lines) of
                (Some response, _) \<Rightarrow> (Inr (Some (wrap_response response)), s)
              | (None, json_text) \<Rightarrow>
                  (case L json_text of
                     Some response \<Rightarrow> (Inr (Some (wrap_response response)), s)
                   | None \<Rightarrow>
                       (Inr None,
                        not_found (log_msg WARN (''Failed to parse JSON: '' @ take 100 json_text) s)))))"

subsection \<open>Running a command, recovery\<close>

definition exn_str :: "exn \<Rightarrow> string" where
  "exn_str e =
     (case e of
        NoPostsFoundError m \<Rightarrow> m
      | CrawlTimeoutError m \<Rightarrow> m
      | TimeoutExpired \<Rightarrow> ''Command timed out''
      | JSONDecodeError \<Rightarrow> ''Expecting value''
      | ValueError m \<Rightarrow> m
      | TypeError m \<Rightarrow> m
      | AttributeError m \<Rightarrow> m
      | Exception m \<Rightarrow> m)"

definition check_tab_not_found :: "completed_process \<Rightarrow> bool" where
  "check_tab_not_found result = contains (lower (stderr result @ stdout result)) ''tab not found''"

definition check_status :: "world \<Rightarrow> state \<Rightarrow> bool \<times> state" where
  "check_status w s =
     (case run_command w [''openclaw'', ''browser'', ''status''] 10 s of
        (Inr result, s1) \<Rightarrow> (returncode result = 0 \<and> contains (stdout result) ''enabled: true'', s1)
      | (Inl e, s1) \<Rightarrow> (False, s1))"

text \<open>
  \<open>_restart_browser\<close>. Every exception of the \<open>try\<close> block is caught there;
  \<open>time.sleep\<close> raises \<open>ValueError\<close> on a negative length.
\<close>

definition restart_browser :: "config \<Rightarrow> world \<Rightarrow> state \<Rightarrow> bool \<times> state" where
  "restart_browser cfg w s =
     (if restart_count s \<ge> browser_max_restarts cfg
      then (False, log_msg WARN (''Already restarted '' @ str_int (restart_count s) @ '' times, giving up'') s)
      else
        let s1 = s\<lparr>restart_count := restart_count s + 1\<rparr>;
            s2 = log_msg INFO (''Attempting browser restart ('' @ str_int (restart_count s1) @ ''/''
                               @ str_int (browser_max_restarts cfg) @ '')...'') s1;
            s3 = log_msg INFO ''Stopping browser...'' s2;
            failed = (\<lambda>e. log_msg ERROR (''Browser restart failed: '' @ exn_str e))
        in case run_command w [''openclaw'', ''browser'', ''stop''] 30 s3 of
             (Inl e, s4) \<Rightarrow> (False, failed e s4)
           | (Inr _, s4) \<Rightarrow>
               (case run_command w [''openclaw'', ''browser'', ''start''] 30
                       (log_msg INFO ''Starting browser...'' (sleep_ms 2000 s4)) of
                  (Inl e, s5) \<Rightarrow> (False, failed e s5)
                | (Inr _, s5) \<Rightarrow>
                    if browser_restart_backoff cfg < 0
                    then (False, failed (ValueError ''sleep length must be non-negative'') s5)
                    else
                      (case check_status w (sleep_ms (nat (browser_restart_backoff cfg * 1000)) s5) of
                         (True, s6) \<Rightarrow> (True, log_msg INFO ''Browser restarted successfully'' s6)
                       | (False, s6) \<Rightarrow> (False, log_msg ERROR ''Browser check failed'' s6))))"

text \<open>
  \<open>_execute_action\<close>: the loop over \<open>range(1, browser_action_max_attempts + 1)\<close> is
  the recursion over that list of attempt numbers. Every caller passes \<open>cmd\<close> only, so
  the timeout is the default 30. No exception leaves the function.
\<close>

fun execute_attempts ::
  "loads \<Rightarrow> config \<Rightarrow> world \<Rightarrow> string list \<Rightarrow> int list \<Rightarrow> state \<Rightarrow> pydict option \<times> state" where
  "execute_attempts L cfg w cmd [] s = (None, s)"
| "execute_attempts L cfg w cmd (attempt # rest) s =
     (case run_command w cmd 30 s of
        (Inl TimeoutExpired, s1) \<Rightarrow> (None, log_msg ERROR ''Command timed out'' s1)
      | (Inl e, s1) \<Rightarrow> (None, log_msg ERROR (''Browser action error: '' @ exn_str e) s1)
      | (Inr result, s1) \<Rightarrow>
          if check_tab_not_found result \<and> attempt < browser_action_max_attempts cfg then
            (case restart_browser cfg w
                    (log_msg WARN ''Detected tab not found, attempting recovery...'' s1) of
               (True, s2) \<Rightarrow> execute_attempts L cfg w cmd rest s2
             | (False, s2) \<Rightarrow> (None, s2))
          else if returncode result = 0 then
            (case parse_output L (stdout result) s1 of
               (Inr r, s2) \<Rightarrow> (r, s2)
             | (Inl e, s2) \<Rightarrow> (None, log_msg ERROR (''Browser action error: '' @ exn_str e) s2))
          else (None, log_msg ERROR (''Command failed: '' @ stderr result) s1))"

definition execute_action :: "loads \<Rightarrow> config \<Rightarrow> world \<Rightarrow> string list \<Rightarrow> state \<Rightarrow> pydict option \<times> state" where
  "execute_action L cfg w cmd s =
     execute_attempts L cfg w cmd [1 .. browser_action_max_attempts cfg] s"

definition ensure_available :: "world \<Rightarrow> state \<Rightarrow> bool \<times> state" where
  "ensure_available w s =
     (case check_status w s of
        (True, s1) \<Rightarrow> (True, s1)
      | (False, s1) \<Rightarrow>
          (case run_command w [''openclaw'', ''browser'', ''start''] 30
                  (log_msg WARN ''Browser not available, attempting to fix...'' s1) of
             (Inl e, s2) \<Rightarrow> (False, s2)
           | (Inr _, s2) \<Rightarrow> check_status w (sleep_ms 3000 s2)))"

subsection \<open>\<open>navigate\<close>, \<open>evaluate\<close>, \<open>press\<close>\<close>

text \<open>\<open>if result:\<close> on the \<open>Optional[Dict]\<close> holds for a dict that is not empty.\<close>

definition navigate :: "loads \<Rightarrow> config \<Rightarrow> world \<Rightarrow> string \<Rightarrow> state \<Rightarrow> bool \<times> state" where
  "navigate L cfg w url s =
     (case execute_action L cfg w [''openclaw'', ''browser'', ''navigate'', ''--json'', url]
             (log_msg INFO (''Navigating to '' @ url) s) of
        (None, s1) \<Rightarrow> (False, s1)
      | (Some result, s1) \<Rightarrow>
          if result \<noteq> []
          then (True, s1\<lparr>target_id := Some (dict_get result ''targetId'')\<rparr>)
          else (False, s1))"

text \<open>\<open>isinstance(v, str) and v.strip().startswith(('[', '{'))\<close>, with the string.\<close>

definition json_text :: "json \<Rightarrow> string option" where
  "json_text v =
     (case v of
        JStr t \<Rightarrow> if startswith (strip t) ''['' \<or> startswith (strip t) ''{'' then Some t else None
      | _ \<Rightarrow> None)"

text \<open>The end of \<open>evaluate\<close>, from \<open>result_value = result.get("result")\<close> on.\<close>

definition decode_result :: "loads \<Rightarrow> json \<Rightarrow> state \<Rightarrow> json \<times> state" where
  "decode_result L result_value s =
     (let s1 = log_msg DEBUG ''Evaluate result (repr)'' (log_msg DEBUG ''Evaluate result type'' s);
          failed = log_msg WARN ''Failed to parse evaluate result''
      in case result_value of
           JArr xs \<Rightarrow> (JArr xs, log_msg DEBUG ''Result is already a list'' s1)
         | _ \<Rightarrow>
           (case json_text result_value of
              None \<Rightarrow> (result_value, s1)
            | Some t \<Rightarrow>
                (case L t of
                   None \<Rightarrow> (JNull, failed s1)
                 | Some v \<Rightarrow>
                     let s2 = log_msg DEBUG ''Parsed evaluate result'' s1 in
                     (case json_text v of
                        None \<Rightarrow> (v, s2)
                      | Some t2 \<Rightarrow>
                          (case L t2 of
                             None \<Rightarrow> (JNull, failed s2)
                           | Some v2 \<Rightarrow> (v2, log_msg DEBUG ''Double-parsed evaluate result'' s2))))))"

text \<open>
  \<open>evaluate\<close>. Reading \<open>self.target_id\<close> before any \<open>navigate\<close> assigned it is an
  \<open>AttributeError\<close>. A target id that is not a string makes \<open>subprocess.run\<close> raise
  inside \<open>_execute_action\<close>, which logs it and returns \<open>None\<close>; no command runs.
\<close>

definition evaluate :: "loads \<Rightarrow> config \<Rightarrow> world \<Rightarrow> string \<Rightarrow> state \<Rightarrow> (exn + json) \<times> state" where
  "evaluate L cfg w js_code s =
     (case target_id s of
        None \<Rightarrow> (Inl (AttributeError ''BrowserClient object has no attribute target_id''), s)
      | Some tid \<Rightarrow>
          if \<not> truthy tid
          then (Inr JNull, log_msg WARN ''No targetId available, cannot evaluate'' s)
          else
            (case tid of
               JStr t \<Rightarrow>
                 (case execute_action L cfg w
                         [''openclaw'', ''browser'', ''evaluate'', ''--target-id'', t, ''--fn'', js_code] s of
                    (None, s1) \<Rightarrow> (Inr JNull, s1)
                  | (Some result, s1) \<Rightarrow>
                      if result = [] then (Inr JNull, s1)
                      else (case decode_result L (dict_get result ''result'') s1 of
                              (v, s2) \<Rightarrow> (Inr v, s2)))
             | _ \<Rightarrow>
                 (Inr JNull,
                  if 1 \<le> browser_action_max_attempts cfg
                  then log_msg ERROR ''Browser action error: expected str, bytes or os.PathLike object'' s
                  else s)))"

definition press :: "loads \<Rightarrow> config \<Rightarrow> world \<Rightarrow> string \<Rightarrow> state \<Rightarrow> bool \<times> state" where
  "press L cfg w key s =
     (case execute_action L cfg w [''openclaw'', ''browser'', ''press'', key] s of
        (result, s1) \<Rightarrow> (result \<noteq> None, s1))"

subsection \<open>\<open>wait_for_content_loaded\<close>\<close>

definition content_ready_js :: string where
  "content_ready_js = ''document.querySelectorAll(article).length > 0''"

text \<open>
  The polling loop runs while \<open>time.time() - start_time < timeout\<close>. Nothing bounds the
  number of rounds but the clock, so the loop is a partial function: \<open>None\<close> is the run
  that never ends (no command and no sleep takes time).
\<close>

partial_function (option) wait_from ::
  "loads \<Rightarrow> config \<Rightarrow> world \<Rightarrow> int \<Rightarrow> nat \<Rightarrow> state \<Rightarrow> ((exn + bool) \<times> state) option" where
  "wait_from L cfg w timeout start_time s =
     (if int (clock s - start_time) < timeout * 1000 then
        (case evaluate L cfg w content_ready_js s of
           (Inl e, s1) \<Rightarrow> Some (Inl e, s1)
         | (Inr result, s1) \<Rightarrow>
             if result = JBool True
             then Some (Inr True, log_msg DEBUG ''Content loaded successfully'' s1)
             else wait_from L cfg w timeout start_time (sleep_ms (scroll_check_interval_ms cfg) s1))
      else Some (Inr False, log_msg WARN ''Content not fully loaded, proceeding anyway'' s))"

declare wait_from.simps [code]

definition wait_for_content_loaded ::
  "loads \<Rightarrow> config \<Rightarrow> world \<Rightarrow> int \<Rightarrow> state \<Rightarrow> ((exn + bool) \<times> state) option" where
  "wait_for_content_loaded L cfg w timeout s = wait_from L cfg w timeout (clock s) s"

section \<open>PostCrawler\<close>

text \<open>The extraction script is text for the browser; the model does not read it.\<close>

definition get_scroll_js :: string where
  "get_scroll_js = ''(() => { ... return result })()''"

record scroll_vars =
  urls :: "string list"
  seen_ids :: "string set"
  no_new_count :: int
  consecutive_errors :: int
  found_yesterday :: bool

text \<open>
  The extraction script pushes strings only (\<open>result.push(fullUrl)\<close>); an array with
  any other element is outside the model and reads as a \<open>TypeError\<close>.
\<close>

definition url_array :: "json list \<Rightarrow> exn + string list" where
  "url_array xs =
     (if list_all (\<lambda>x. case x of JStr _ \<Rightarrow> True | _ \<Rightarrow> False) xs
      then Inr (concat (map (\<lambda>x. case x of JStr u \<Rightarrow> [u] | _ \<Rightarrow> []) xs))
      else Inl (TypeError ''element is not a string''))"

text \<open>
  \<open>page_urls\<close>: the list itself, or \<open>json.loads(result)\<close>, which takes a string only;
  the comprehension then iterates what was loaded (a string by characters, a dict by
  keys).
\<close>

definition page_urls_of :: "loads \<Rightarrow> json \<Rightarrow> exn + string list" where
  "page_urls_of L result =
     (case result of
        JArr xs \<Rightarrow> url_array xs
      | JStr t \<Rightarrow>
          (case L t of
             None \<Rightarrow> Inl JSONDecodeError
           | Some (JArr xs) \<Rightarrow> url_array xs
           | Some (JStr r) \<Rightarrow> Inr (map (\<lambda>c. [c]) r)
           | Some (JObj d) \<Rightarrow> Inr (map fst d)
           | Some _ \<Rightarrow> Inl (TypeError ''object is not iterable''))
      | _ \<Rightarrow> Inl (TypeError ''the JSON object must be str, bytes or bytearray''))"

datatype flow = Break scroll_vars | Go scroll_vars | Raise exn

text \<open>
  The \<open>try\<close> block of one scroll, once \<open>page_urls\<close> is known. The early stop on
  yesterday's post stands in the branch of a scroll that found nothing new.
\<close>

definition page_step :: "config \<Rightarrow> world \<Rightarrow> int \<Rightarrow> string list \<Rightarrow> scroll_vars \<Rightarrow> state \<Rightarrow> flow \<times> state" where
  "page_step cfg w scroll_num page_urls v s =
     (let new_urls = filter (\<lambda>u. u \<notin> seen_ids v) page_urls in
      if new_urls \<noteq> [] then
        (Go (v\<lparr>seen_ids := seen_ids v \<union> set new_urls, urls := urls v @ new_urls, no_new_count := 0\<rparr>),
         log_msg DEBUG (''Found '' @ str_nat (length new_urls) @ '' new URLs'') s)
      else
        let v1 = v\<lparr>no_new_count := no_new_count v + 1\<rparr>;
            s1 = log_msg DEBUG (''No new posts (count: '' @ str_int (no_new_count v1) @ '')'') s
        in
        if no_new_count v1 \<ge> scroll_no_new_threshold cfg
        then (Break v1, log_msg INFO ''No new posts for 2 scrolls, stopping early'' s1)
        else if scroll_early_stop_on_yesterday cfg \<and> scroll_num = 1 \<and> urls v1 \<noteq> [] then
          (let first_url = hd (urls v1);
               tweet_id = last (split_str ''/status/'' first_url)
           in if tweet_id \<noteq> [] then
                (case py_int tweet_id of
                   None \<Rightarrow> (Raise (ValueError (''invalid literal for int() with base 10: '' @ tweet_id)), s1)
                 | Some tweet_timestamp \<Rightarrow>
                     let current_ts = start_epoch_ms w + int (clock s1);
                         one_day_ago = current_ts - 24 * 60 * 60 * 1000
                     in if tweet_timestamp < one_day_ago
                        then (Break (v1\<lparr>found_yesterday := True\<rparr>),
                              log_msg INFO ''Detected yesterday post, stopping immediately'' s1)
                        else (Go v1, s1))
              else (Go v1, s1))
        else (Go v1, s1))"

text \<open>
  The loop of \<open>_scroll_and_collect\<close> over \<open>range(1, scroll_max_attempts + 1)\<close>.
  \<open>consecutive_errors\<close> is reset before the \<open>try\<close>, so a \<open>JSONDecodeError\<close> leaves it
  at one.
\<close>

fun scroll_loop ::
  "loads \<Rightarrow> config \<Rightarrow> world \<Rightarrow> string \<Rightarrow> int list \<Rightarrow> scroll_vars \<Rightarrow> state \<Rightarrow> (exn + scroll_vars) \<times> state" where
  "scroll_loop L cfg w username [] v s = (Inr v, s)"
| "scroll_loop L cfg w username (scroll_num # rest) v s =
     (case evaluate L cfg w get_scroll_js
             (log_msg DEBUG (''Scroll '' @ str_int scroll_num @ ''/'' @ str_int (scroll_max_attempts cfg)) s) of
        (Inl e, s1) \<Rightarrow> (Inl e, s1)
      | (Inr result, s1) \<Rightarrow>
          (case (if result \<noteq> JNull then
                   (case page_urls_of L result of
                      Inl JSONDecodeError \<Rightarrow>
                        (Go (v\<lparr>consecutive_errors := 1\<rparr>), log_msg ERROR ''Failed to parse URLs'' s1)
                    | Inl e \<Rightarrow> (Raise e, s1)
                    | Inr page_urls \<Rightarrow> page_step cfg w scroll_num page_urls (v\<lparr>consecutive_errors := 0\<rparr>) s1)
                 else (Go (v\<lparr>consecutive_errors := consecutive_errors v + 1\<rparr>), s1)) of
             (Raise e, s2) \<Rightarrow> (Inl e, s2)
           | (Break v2, s2) \<Rightarrow> (Inr v2, s2)
           | (Go v2, s2) \<Rightarrow>
               if consecutive_errors v2 \<ge> scroll_max_consecutive_errors cfg
               then (Inr v2, log_msg ERROR (''Too many consecutive errors, giving up on @'' @ username) s2)
               else if found_yesterday v2 then (Inr v2, s2)
               else if scroll_num < scroll_max_attempts cfg then
                 (case press L cfg w ''PageDown'' s2 of
                    (_, s3) \<Rightarrow>
                      (case uniform_ms w (scroll_check_interval_ms cfg) (scroll_check_interval_ms cfg * 2) s3 of
                         (d, s4) \<Rightarrow> scroll_loop L cfg w username rest v2 (sleep_ms d s4)))
               else scroll_loop L cfg w username rest v2 s2))"

definition scroll_and_collect ::
  "loads \<Rightarrow> config \<Rightarrow> world \<Rightarrow> string \<Rightarrow> state \<Rightarrow> (exn + string list) \<times> state" where
  "scroll_and_collect L cfg w username s =
     (case scroll_loop L cfg w username [1 .. scroll_max_attempts cfg]
             \<lparr> urls = [], seen_ids = {}, no_new_count = 0, consecutive_errors = 0, found_yesterday = False \<rparr> s of
        (Inl e, s1) \<Rightarrow> (Inl e, s1)
      | (Inr v, s1) \<Rightarrow>
          (Inr (urls v),
           log_msg INFO (''Collected '' @ str_nat (length (urls v)) @ '' URLs for @'' @ username) s1))"

text \<open>\<open>crawl_user\<close> up to the scrolling: availability, navigation, the wait for content.\<close>

definition open_profile ::
  "loads \<Rightarrow> config \<Rightarrow> world \<Rightarrow> string \<Rightarrow> state \<Rightarrow> ((exn + unit) \<times> state) option" where
  "open_profile L cfg w username s =
     (case ensure_available w (log_msg INFO (''Starting crawl for @'' @ username) s) of
        (False, s1) \<Rightarrow> Some (Inl (Exception ''Browser not available''), s1)
      | (True, s1) \<Rightarrow>
          (case navigate L cfg w (''https://x.com/'' @ username) s1 of
             (False, s2) \<Rightarrow> Some (Inl (Exception (''Failed to navigate to @'' @ username)), s2)
           | (True, s2) \<Rightarrow>
               (case wait_for_content_loaded L cfg w (page_load_timeout cfg) s2 of
                  None \<Rightarrow> None
                | Some (Inl e, s3) \<Rightarrow> Some (Inl e, s3)
                | Some (Inr True, s3) \<Rightarrow> Some (Inr (), log_msg DEBUG ''Page loaded, ready to scroll'' s3)
                | Some (Inr False, s3) \<Rightarrow>
                    (case uniform_ms w 1000 2000 s3 of (d, s4) \<Rightarrow> Some (Inr (), sleep_ms d s4)))))"

definition crawl_user ::
  "loads \<Rightarrow> config \<Rightarrow> world \<Rightarrow> string \<Rightarrow> state \<Rightarrow> ((exn + string list) \<times> state) option" where
  "crawl_user L cfg w username s =
     (case open_profile L cfg w username s of
        None \<Rightarrow> None
      | Some (Inl e, s1) \<Rightarrow> Some (Inl e, s1)
      | Some (Inr _, s1) \<Rightarrow>
          (case scroll_and_collect L cfg w username s1 of
             (Inl e, s2) \<Rightarrow> Some (Inl e, s2)
           | (Inr us, s2) \<Rightarrow>
               if us = []
               then Some (Inl (NoPostsFoundError (''No posts found for @'' @ username @ '' in the last 24 hours'')), s2)
               else Some (Inr us, s2)))"

section \<open>CrawlHot: retry and timeout\<close>

text \<open>The loop of \<open>_retry_crawl_user\<close> over \<open>range(1, max_retries + 1)\<close>.\<close>

fun retry_attempts ::
  "loads \<Rightarrow> config \<Rightarrow> world \<Rightarrow> string \<Rightarrow> int list \<Rightarrow> state \<Rightarrow> (string list \<times> state) option" where
  "retry_attempts L cfg w username [] s =
     Some ([], log_msg ERROR (''All attempts failed for @'' @ username) s)"
| "retry_attempts L cfg w username (attempt # rest) s =
     (case crawl_user L cfg w username
             (log_msg DEBUG (''Attempt '' @ str_int attempt @ ''/'' @ str_int (max_retries cfg)) s) of
        None \<Rightarrow> None
      | Some (Inr us, s1) \<Rightarrow> Some (us, s1)
      | Some (Inl (NoPostsFoundError m), s1) \<Rightarrow>
          Some ([], log_msg INFO (''@'' @ username @ '': no posts found in the last 24 hours'') s1)
      | Some (Inl e, s1) \<Rightarrow>
          (let s2 = log_msg ERROR (''Attempt '' @ str_int attempt @ '' failed: '' @ exn_str e) s1 in
           if attempt < max_retries cfg then
             (case uniform_ms w 1000 3000 s2 of
                (d, s3) \<Rightarrow>
                  retry_attempts L cfg w username rest
                    (sleep_ms (d * nat attempt) (log_msg WARN ''Retrying...'' s3)))
           else retry_attempts L cfg w username rest s2))"

definition retry_crawl_user ::
  "loads \<Rightarrow> config \<Rightarrow> world \<Rightarrow> string \<Rightarrow> state \<Rightarrow> (string list \<times> state) option" where
  "retry_crawl_user L cfg w username s = retry_attempts L cfg w username [1 .. max_retries cfg] s"

text \<open>
  \<open>_retry_with_timeout\<close> runs \<open>func\<close> once on a worker thread beside a timer. The timer
  fires when the worker has not ended within \<open>timeout\<close> seconds and writes a
  \<open>CrawlTimeoutError\<close> into the exception cell; the caller waits \<open>timeout + 5\<close> seconds
  at most, then returns the empty list if the cell holds an exception and the worker's
  result otherwise. The worker is not stopped: the state returned is the one it leaves
  when it ends, the starting state if it never ends.
\<close>

definition timeout_message :: "string \<Rightarrow> int \<Rightarrow> string" where
  "timeout_message username timeout =
     ''Exception: Crawl for @'' @ username @ '' timed out after '' @ str_int timeout @ ''s''"

definition retry_with_timeout ::
  "(state \<Rightarrow> ((exn + string list) \<times> state) option) \<Rightarrow> string \<Rightarrow> int \<Rightarrow> state \<Rightarrow> string list \<times> state" where
  "retry_with_timeout func username timeout s =
     (case func s of
        None \<Rightarrow> ([], log_msg ERROR (timeout_message username timeout) s)
      | Some (r, s1) \<Rightarrow>
          if int (clock s1 - clock s) < timeout * 1000 then
            (case r of
               Inr result \<Rightarrow> (result, s1)
             | Inl (NoPostsFoundError m) \<Rightarrow> ([], s1)
             | Inl e \<Rightarrow> ([], log_msg ERROR (''Exception: '' @ exn_str e) s1))
          else
            (case r of
               Inr result \<Rightarrow> ([], log_msg ERROR (timeout_message username timeout) s1)
             | Inl (NoPostsFoundError m) \<Rightarrow> ([], log_msg ERROR (timeout_message username timeout) s1)
             | Inl e \<Rightarrow>
                 if int (clock s1 - clock s) \<le> (timeout + 5) * 1000
                 then ([], log_msg ERROR (''Exception: '' @ exn_str e) s1)
                 else ([], log_msg ERROR (timeout_message username timeout) s1)))"

definition crawl_single_user ::
  "loads \<Rightarrow> config \<Rightarrow> world \<Rightarrow> string \<Rightarrow> state \<Rightarrow> string list \<times> state" where
  "crawl_single_user L cfg w username s =
     retry_with_timeout
       (\<lambda>s0. map_option (\<lambda>(us, s1). (Inr us, s1)) (retry_crawl_user L cfg w username s0))
       username (user_crawl_timeout cfg) s"

section \<open>TwitterApiClient\<close>

text \<open>
  \<open>re.search\<close> of \<open>(?:x\.com|twitter\.com)/\w+/<word>/(\d+)\<close>, with \<open>\w\<close> and
  \<open>\d\<close> the ASCII classes. \<open>match_here\<close> tries the pattern at the head of the
  string: \<open>\w+\<close> must run up to the slash, and group 1 is the longest run of digits.
\<close>

definition match_after_host :: "string \<Rightarrow> string \<Rightarrow> string option" where
  "match_after_host word r =
     (let name = takeWhile is_word r;
          rest = dropWhile is_word r;
          sep = ''/'' @ word @ ''/'';
          digits = takeWhile is_digit (drop (length sep) rest)
      in if name \<noteq> [] \<and> startswith rest sep \<and> digits \<noteq> [] then Some digits else None)"

definition match_here :: "string \<Rightarrow> string \<Rightarrow> string option" where
  "match_here word s =
     (if startswith s ''x.com/'' then match_after_host word (drop 6 s)
      else if startswith s ''twitter.com/'' then match_after_host word (drop 12 s)
      else None)"

fun re_search :: "string \<Rightarrow> string \<Rightarrow> string option" where
  "re_search word [] = None"
| "re_search word (c # cs) =
     (case match_here word (c # cs) of
        Some g \<Rightarrow> Some g
      | None \<Rightarrow> re_search word cs)"

definition extract_tweet_id :: "string \<Rightarrow> string option" where
  "extract_tweet_id url =
     (case re_search ''status'' url of
        Some g \<Rightarrow> Some g
      | None \<Rightarrow> re_search ''statuses'' url)"

text \<open>\<open>re.sub(r'(x\.com|twitter\.com)', 'api.fxtwitter.com', url)\<close>.\<close>

fun to_fxtwitter :: "nat \<Rightarrow> string \<Rightarrow> string" where
  "to_fxtwitter skip [] = []"
| "to_fxtwitter skip (c # cs) =
     (if 0 < skip then to_fxtwitter (skip - 1) cs
      else if startswith (c # cs) ''x.com'' then ''api.fxtwitter.com'' @ to_fxtwitter 4 cs
      else if startswith (c # cs) ''twitter.com'' then ''api.fxtwitter.com'' @ to_fxtwitter 10 cs
      else c # to_fxtwitter 0 cs)"

text \<open>
  One \<open>requests.get\<close>: a response with its status code and what \<open>resp.json()\<close> gives
  (\<open>None\<close> when it raises), or an exception of the request. The network answers by URL.
\<close>

datatype http_result = Response int "json option" | RequestFailed string

type_synonym http = "string \<Rightarrow> http_result"

text \<open>What one fetch leaves behind: the URLs requested and the lines logged.\<close>

record net =
  requests :: "string list"
  net_log :: "log_line list"

definition net_msg :: "level \<Rightarrow> string \<Rightarrow> net \<Rightarrow> net" where
  "net_msg lv m n = n\<lparr>net_log := net_log n @ [(lv, m)]\<rparr>"

definition http_get :: "http \<Rightarrow> string \<Rightarrow> string \<Rightarrow> net \<Rightarrow> json \<times> net" where
  "http_get H api url n =
     (let n1 = n\<lparr>requests := requests n @ [url]\<rparr> in
      case H url of
        Response code body \<Rightarrow>
          if code = 200 then
            (case body of
               Some d \<Rightarrow> (d, n1)
             | None \<Rightarrow> (JNull, net_msg WARN (api @ '' error: Expecting value'') n1))
          else (JNull, net_msg WARN (api @ '' API returned '' @ str_int code) n1)
      | RequestFailed m \<Rightarrow> (JNull, net_msg WARN (api @ '' error: '' @ m) n1))"

definition fetch_via_fxtwitter :: "http \<Rightarrow> string \<Rightarrow> net \<Rightarrow> json \<times> net" where
  "fetch_via_fxtwitter H url n = http_get H ''fxtwitter'' (to_fxtwitter 0 url) n"

definition fetch_via_syndication :: "http \<Rightarrow> string \<Rightarrow> net \<Rightarrow> json \<times> net" where
  "fetch_via_syndication H tweet_id n =
     http_get H ''syndication''
       (''https://cdn.syndication.twimg.com/tweet-result?id='' @ tweet_id @ ''&token=0'') n"

text \<open>
  \<open>data and data.get(key)\<close> as a condition: a falsy payload has no marker, a dict has
  it when the value under the key is truthy, and any other truthy payload has no
  \<open>get\<close> (\<open>AttributeError\<close>).
\<close>

definition has_marker :: "json \<Rightarrow> string \<Rightarrow> exn + bool" where
  "has_marker data key =
     (if \<not> truthy data then Inr False
      else case data of
             JObj d \<Rightarrow> Inr (truthy (dict_get d key))
           | _ \<Rightarrow> Inl (AttributeError ''object has no attribute get''))"

definition fetch_post :: "http \<Rightarrow> string \<Rightarrow> net \<Rightarrow> (exn + (json \<times> string) option) \<times> net" where
  "fetch_post H url n =
     (case extract_tweet_id url of
        None \<Rightarrow> (Inr None, net_msg WARN (''Cannot extract tweet ID from URL: '' @ url) n)
      | Some tweet_id \<Rightarrow>
          if tweet_id = [] then (Inr None, net_msg WARN (''Cannot extract tweet ID from URL: '' @ url) n)
          else
            (case fetch_via_fxtwitter H url n of
               (data, n1) \<Rightarrow>
                 (case has_marker data ''tweet'' of
                    Inl e \<Rightarrow> (Inl e, n1)
                  | Inr True \<Rightarrow>
                      (Inr (Some (data, ''fxtwitter'')),
                       net_msg DEBUG (''Successfully fetched via fxtwitter: '' @ url) n1)
                  | Inr False \<Rightarrow>
                      (case fetch_via_syndication H tweet_id n1 of
                         (data2, n2) \<Rightarrow>
                           (case has_marker data2 ''text'' of
                              Inl e \<Rightarrow> (Inl e, n2)
                            | Inr True \<Rightarrow>
                                (Inr (Some (data2, ''syndication'')),
                                 net_msg DEBUG (''Successfully fetched via syndication: '' @ url) n2)
                            | Inr False \<Rightarrow>
                                (Inr None, net_msg WARN (''Failed to fetch content: '' @ url) n2))))))"

section \<open>ResultFileManager\<close>

text \<open>A file is its text; \<open>timestamp.strftime(...)\<close> comes in as the string it prints.\<close>

definition create_txt :: "string \<Rightarrow> string list \<Rightarrow> string" where
  "create_txt ts users =
     ''# Crawl Results - '' @ ts @ nl @ ''# Total users: '' @ str_nat (length users) @ nl
     @ ''# Started at: '' @ ts @ nl @ nl"

definition user_block :: "string \<Rightarrow> string list \<Rightarrow> nat \<Rightarrow> nat \<Rightarrow> string" where
  "user_block username us current tot =
     ''# @'' @ username @ '' ('' @ str_nat (length us) @ '' posts) - ['' @ str_nat current @ ''/''
     @ str_nat tot @ '']'' @ nl @ concat (map (\<lambda>u. u @ nl) us) @ nl"

definition append_user_results :: "string \<Rightarrow> string \<Rightarrow> string list \<Rightarrow> nat \<Rightarrow> nat \<Rightarrow> string" where
  "append_user_results file username us current tot = file @ user_block username us current tot"

definition finalize_txt :: "string \<Rightarrow> nat \<Rightarrow> string \<Rightarrow> string" where
  "finalize_txt file total_posts now =
     file @ nl @ ''# Completed at: '' @ now @ nl @ ''# Total posts: '' @ str_nat total_posts @ nl"

subsection \<open>\<open>save_markdown\<close>\<close>

definition zh_report_title :: string where
  "zh_report_title = [CHR 0xE5, CHR 0xB8, CHR 0x96, CHR 0xE5, CHR 0xAD, CHR 0x90, CHR 0xE6, CHR 0x8A, CHR 0x93,
     CHR 0xE5, CHR 0x8F, CHR 0x96, CHR 0xE7, CHR 0xBB, CHR 0x93, CHR 0xE6, CHR 0x9E, CHR 0x9C]"

definition zh_crawl_time :: string where
  "zh_crawl_time = [CHR 0xE6, CHR 0x8A, CHR 0x93, CHR 0xE5, CHR 0x8F, CHR 0x96, CHR 0xE6, CHR 0x97, CHR 0xB6,
     CHR 0xE9, CHR 0x97, CHR 0xB4]"

definition zh_total_users :: string where
  "zh_total_users = [CHR 0xE6, CHR 0x80, CHR 0xBB, CHR 0xE7, CHR 0x94, CHR 0xA8, CHR 0xE6, CHR 0x88, CHR 0xB7,
     CHR 0xE6, CHR 0x95, CHR 0xB0]"

definition zh_total_posts :: string where
  "zh_total_posts = [CHR 0xE6, CHR 0x80, CHR 0xBB, CHR 0xE5, CHR 0xB8, CHR 0x96, CHR 0xE5, CHR 0xAD, CHR 0x90,
     CHR 0xE6, CHR 0x95, CHR 0xB0]"

definition zh_post :: string where
  "zh_post = [CHR 0xE5, CHR 0xB8, CHR 0x96, CHR 0xE5, CHR 0xAD, CHR 0x90]"

definition zh_posts_of :: string where
  "zh_posts_of = [CHR 0xE7, CHR 0x9A, CHR 0x84] @ zh_post"

definition zh_items :: string where
  "zh_items = [CHR 0xE6, CHR 0x9D, CHR 0xA1]"

definition zh_fetching :: string where
  "zh_fetching = [CHR 0xE6, CHR 0xAD, CHR 0xA3, CHR 0xE5, CHR 0x9C, CHR 0xA8, CHR 0xE8, CHR 0x8E, CHR 0xB7,
     CHR 0xE5, CHR 0x8F, CHR 0x96, CHR 0xE5, CHR 0x86, CHR 0x85, CHR 0xE5, CHR 0xAE, CHR 0xB9]"

definition zh_unavailable :: string where
  "zh_unavailable = [CHR 0xE2, CHR 0x9A, CHR 0xA0, CHR 0xEF, CHR 0xB8, CHR 0x8F, CHR 0x20, CHR 0xE6, CHR 0x97,
     CHR 0xA0, CHR 0xE6, CHR 0xB3, CHR 0x95, CHR 0xE8, CHR 0x8E, CHR 0xB7, CHR 0xE5, CHR 0x8F, CHR 0x96]
     @ zh_post @ [CHR 0xE5, CHR 0x86, CHR 0x85, CHR 0xE5, CHR 0xAE, CHR 0xB9]"

definition md_header :: "string \<Rightarrow> (string \<times> string list) list \<Rightarrow> string list" where
  "md_header ts results =
     [''# X '' @ zh_report_title,
      nl @ ''**'' @ zh_crawl_time @ '':** '' @ ts,
      ''**'' @ zh_total_users @ '':** '' @ str_nat (length results),
      ''**'' @ zh_total_posts @ '':** '' @ str_nat (sum_list (map (\<lambda>(u, us). length us) results)),
      nl @ ''---'' @ nl]"

text \<open>The four strings the placeholder of one post extends \<open>content\<close> with.\<close>

definition post_heading :: "nat \<Rightarrow> string" where
  "post_heading i = nl @ ''### '' @ zh_post @ '' '' @ str_nat i @ nl @ nl"

definition fetching_line :: string where
  "fetching_line = ''> '' @ zh_fetching @ ''...'' @ nl @ nl"

definition url_line :: "string \<Rightarrow> string" where
  "url_line u = ''- URL: '' @ u @ nl @ nl"

definition rule_line :: string where
  "rule_line = ''---'' @ nl @ nl"

definition placeholder :: "nat \<Rightarrow> string \<Rightarrow> string list" where
  "placeholder i u = [post_heading i, fetching_line, url_line u, rule_line]"

text \<open>The one string written for a post whose content could not be fetched.\<close>

definition unavailable_section :: "nat \<Rightarrow> string \<Rightarrow> string" where
  "unavailable_section i u =
     post_heading i @ ''> '' @ zh_unavailable @ nl @ nl @ url_line u @ rule_line"

record post_info =
  info_user :: string
  info_url :: string
  info_index :: nat
  info_total :: nat
  section_start :: nat

text \<open>
  The body of the inner loop, over \<open>enumerate(urls, 1)\<close>, and of the outer one, over
  \<open>results.items()\<close>; \<open>foldl\<close> runs a body over its list.
\<close>

definition place_post ::
  "string \<Rightarrow> nat \<Rightarrow> string list \<times> post_info list \<Rightarrow> nat \<times> string \<Rightarrow> string list \<times> post_info list" where
  "place_post user tot acc iu =
     (case (acc, iu) of
        ((content, post_infos), (i, u)) \<Rightarrow>
          (content @ placeholder i u,
           post_infos @ [\<lparr> info_user = user, info_url = u, info_index = i, info_total = tot,
                           section_start = length content \<rparr>]))"

definition user_heading :: "string \<Rightarrow> nat \<Rightarrow> string list" where
  "user_heading user n =
     [nl @ ''## @'' @ user @ '' '' @ zh_posts_of @ '' ('' @ str_nat n @ '' '' @ zh_items @ '')'' @ nl,
      ''---'' @ nl]"

definition place_user ::
  "string list \<times> post_info list \<Rightarrow> string \<times> string list \<Rightarrow> string list \<times> post_info list" where
  "place_user acc item =
     (case (acc, item) of
        ((content, post_infos), (user, us)) \<Rightarrow>
          if us = [] then (content, post_infos)
          else foldl (place_post user (length us))
                 (content @ user_heading user (length us), post_infos)
                 (zip [1 ..< Suc (length us)] us))"

definition place_users ::
  "(string \<times> string list) list \<Rightarrow> string list \<times> post_info list \<Rightarrow> string list \<times> post_info list" where
  "place_users results acc = foldl place_user acc results"

text \<open>
  \<open>api_client\<close> and \<open>formatter\<close> are arguments of \<open>save_markdown\<close>: what
  \<open>fetch_post\<close> gives for a URL, and what \<open>format_as_markdown\<close> gives for a payload,
  its source and the URL.
\<close>

type_synonym fetcher = "string \<Rightarrow> exn + (json \<times> string) option"
type_synonym formatter = "json \<Rightarrow> string \<Rightarrow> string \<Rightarrow> exn + string"

definition fetch_content :: "fetcher \<Rightarrow> formatter \<Rightarrow> post_info \<Rightarrow> exn + string option" where
  "fetch_content api fmt info =
     (case api (info_url info) of
        Inl e \<Rightarrow> Inl e
      | Inr None \<Rightarrow> Inr None
      | Inr (Some (data, source)) \<Rightarrow>
          (case fmt data source (info_url info) of
             Inl e \<Rightarrow> Inl e
           | Inr markdown \<Rightarrow> Inr (Some markdown)))"

text \<open>
  The loop over \<open>as_completed(futures)\<close>: \<open>order\<close> lists the positions in
  \<open>post_infos\<close> in the order the fetches end. Each result is assigned to the one
  element \<open>content[section_start]\<close>, always in range.
\<close>

fun fill_sections ::
  "fetcher \<Rightarrow> formatter \<Rightarrow> post_info list \<Rightarrow> nat list \<Rightarrow> string list \<Rightarrow> state \<Rightarrow> string list \<times> state" where
  "fill_sections api fmt post_infos [] content s = (content, s)"
| "fill_sections api fmt post_infos (k # order) content s =
     (if k < length post_infos then
        (let info = post_infos ! k in
         case fetch_content api fmt info of
           Inl e \<Rightarrow>
             fill_sections api fmt post_infos order content
               (log_msg ERROR (''Error fetching '' @ info_url info @ '': '' @ exn_str e) s)
         | Inr (Some markdown) \<Rightarrow>
             if markdown \<noteq> [] then
               fill_sections api fmt post_infos order
                 (content[section_start info := markdown @ nl @ nl @ ''---'' @ nl @ nl])
                 (log_msg INFO (''Fetched '' @ info_user info @ '' post '' @ str_nat (info_index info)
                                @ ''/'' @ str_nat (info_total info)) s)
             else
               fill_sections api fmt post_infos order
                 (content[section_start info := unavailable_section (info_index info) (info_url info)]) s
         | Inr None \<Rightarrow>
             fill_sections api fmt post_infos order
               (content[section_start info := unavailable_section (info_index info) (info_url info)]) s)
      else fill_sections api fmt post_infos order content s)"

text \<open>\<open>save_markdown\<close>: the text written to the report file.\<close>

definition save_markdown ::
  "fetcher \<Rightarrow> formatter \<Rightarrow> (string \<times> string list) list \<Rightarrow> string \<Rightarrow> nat list \<Rightarrow> state \<Rightarrow> string \<times> state" where
  "save_markdown api fmt results ts order s =
     (case place_users results (md_header ts results, []) of
        (content, post_infos) \<Rightarrow>
          (case fill_sections api fmt post_infos order content
                  (log_msg INFO (''Fetching content for '' @ str_nat (length post_infos)
                                 @ '' posts concurrently...'') s) of
             (content', s1) \<Rightarrow> (concat content', log_msg INFO ''Markdown saved'' s1)))"

section \<open>CrawlHot: the scheduler\<close>

text \<open>\<open>d[k] = v\<close> on a dict that keeps insertion order.\<close>

fun dict_set :: "('k \<times> 'v) list \<Rightarrow> 'k \<Rightarrow> 'v \<Rightarrow> ('k \<times> 'v) list" where
  "dict_set [] k v = [(k, v)]"
| "dict_set ((k', v') # rest) k v =
     (if k' = k then (k, v) # rest else (k', v') # dict_set rest k v)"

record sched =
  all_results :: "(string \<times> string list) list"
  txt_body :: string
  completed_count :: nat

text \<open>
  The loop of \<open>crawl_all_users\<close> over \<open>as_completed(future_to_user)\<close>: \<open>order\<close> lists
  the positions in \<open>users\<close> in the order the futures end, and \<open>run\<close> is what
  \<open>future.result()\<close> gives for a user.
\<close>

fun completed_loop ::
  "(string \<Rightarrow> state \<Rightarrow> (exn + string list) \<times> state) \<Rightarrow> string list \<Rightarrow> nat list \<Rightarrow> sched \<Rightarrow> state
   \<Rightarrow> sched \<times> state" where
  "completed_loop run users [] v s = (v, s)"
| "completed_loop run users (k # order) v s =
     (if k < length users then
        (let user = users ! k;
             n = completed_count v + 1;
             counter = '' ['' @ str_nat n @ ''/'' @ str_nat (length users) @ '']''
         in case run user s of
              (Inr us, s1) \<Rightarrow>
                completed_loop run users order
                  \<lparr> all_results = dict_set (all_results v) user us,
                    txt_body = append_user_results (txt_body v) user us n (length users),
                    completed_count = n \<rparr>
                  (if us \<noteq> []
                   then log_msg INFO (''@'' @ user @ '': '' @ str_nat (length us) @ '' posts'' @ counter) s1
                   else log_msg WARN (''@'' @ user @ '': no posts found'' @ counter) s1)
            | (Inl e, s1) \<Rightarrow>
                completed_loop run users order
                  \<lparr> all_results = dict_set (all_results v) user [],
                    txt_body = append_user_results (txt_body v) user [] n (length users),
                    completed_count = n \<rparr>
                  (log_msg ERROR (''Failed to crawl @'' @ user @ '': '' @ exn_str e) s1))
      else completed_loop run users order v s)"

definition print_summary :: "(string \<times> string list) list \<Rightarrow> state \<Rightarrow> state" where
  "print_summary results s =
     fold (\<lambda>(u, us). log_msg INFO (''@'' @ u @ '': '' @ str_nat (length us) @ '' posts''))
       results
       (log_msg INFO (''Total posts: '' @ str_nat (sum_list (map (\<lambda>(u, us). length us) results)))
         (log_msg INFO (''Total users: '' @ str_nat (length results))
           (log_msg INFO ''CRAWL SUMMARY'' s)))"

text \<open>What \<open>future.result()\<close> gives for the worker of a user: the list \<open>crawl_single_user\<close> returns.\<close>

definition future_result :: "loads \<Rightarrow> config \<Rightarrow> world \<Rightarrow> string \<Rightarrow> state \<Rightarrow> (exn + string list) \<times> state" where
  "future_result L cfg w u s = (case crawl_single_user L cfg w u s of (us, s1) \<Rightarrow> (Inr us, s1))"

record crawl_output =
  crawl_results :: "(string \<times> string list) list"
  txt_file :: "string option"
  md_file :: "string option"

text \<open>
  \<open>crawl_all_users\<close>. The workers hold \<open>browser_lock\<close> for a whole
  \<open>crawl_single_user\<close>, so the crawls run one after the other, in the order they end.
\<close>

definition crawl_all_users ::
  "loads \<Rightarrow> config \<Rightarrow> world \<Rightarrow> string list \<Rightarrow> nat list \<Rightarrow> string \<Rightarrow> string \<Rightarrow> fetcher \<Rightarrow> formatter
   \<Rightarrow> nat list \<Rightarrow> state \<Rightarrow> crawl_output \<times> state" where
  "crawl_all_users L cfg w users order ts done_ts api fmt fetch_order s =
     (if users = []
      then (\<lparr> crawl_results = [], txt_file = None, md_file = None \<rparr>, log_msg WARN ''No users to crawl'' s)
      else
        (case completed_loop (future_result L cfg w) users order
                \<lparr> all_results = [], txt_body = create_txt ts users, completed_count = 0 \<rparr>
                (log_msg INFO ''Starting crawl (concurrent mode)...'' (log_msg INFO ''Created TXT file'' s)) of
           (v, s1) \<Rightarrow>
             (let total_posts = sum_list (map (\<lambda>(u, us). length us) (all_results v)) in
              case save_markdown api fmt (all_results v) ts fetch_order s1 of
                (md, s2) \<Rightarrow>
                  (\<lparr> crawl_results = all_results v,
                     txt_file = Some (finalize_txt (txt_body v) total_posts done_ts),
                     md_file = Some md \<rparr>,
                   print_summary (all_results v) s2))))"

section \<open>Histories of a client\<close>

text \<open>The calls a \<open>BrowserClient\<close> takes, and a run of a list of them from a state.\<close>

datatype client_op =
    Navigate string
  | Evaluate string
  | Press string
  | CheckStatus
  | EnsureAvailable

datatype op_result = Flag bool | Value "exn + json"

definition run_op :: "loads \<Rightarrow> config \<Rightarrow> world \<Rightarrow> client_op \<Rightarrow> state \<Rightarrow> op_result \<times> state" where
  "run_op L cfg w c s =
     (case c of
        Navigate url \<Rightarrow> (case navigate L cfg w url s of (b, s1) \<Rightarrow> (Flag b, s1))
      | Evaluate js \<Rightarrow> (case evaluate L cfg w js s of (r, s1) \<Rightarrow> (Value r, s1))
      | Press key \<Rightarrow> (case press L cfg w key s of (b, s1) \<Rightarrow> (Flag b, s1))
      | CheckStatus \<Rightarrow> (case check_status w s of (b, s1) \<Rightarrow> (Flag b, s1))
      | EnsureAvailable \<Rightarrow> (case ensure_available w s of (b, s1) \<Rightarrow> (Flag b, s1)))"

fun run_ops :: "loads \<Rightarrow> config \<Rightarrow> world \<Rightarrow> client_op list \<Rightarrow> state \<Rightarrow> op_result list \<times> state" where
  "run_ops L cfg w [] s = ([], s)"
| "run_ops L cfg w (c # cs) s =
     (case run_op L cfg w c s of
        (r, s1) \<Rightarrow> (case run_ops L cfg w cs s1 of (rs, s2) \<Rightarrow> (r # rs, s2)))"

section \<open>Quantities the properties speak of\<close>

text \<open>The restarts a client has performed: the stop commands among the commands it ran.\<close>

definition stop_cmd :: "string list" where
  "stop_cmd = [''openclaw'', ''browser'', ''stop'']"

definition stops :: "state \<Rightarrow> int" where
  "stops s = int (count_list (issued s) stop_cmd)"


text \<open>
  The payloads the two sources give for a post, whatever was requested before, and the
  URL asked of the second source.
\<close>

definition no_net :: net where
  "no_net = \<lparr> requests = [], net_log = [] \<rparr>"

definition primary_payload :: "http \<Rightarrow> string \<Rightarrow> json" where
  "primary_payload H url = fst (fetch_via_fxtwitter H url no_net)"

definition secondary_payload :: "http \<Rightarrow> string \<Rightarrow> json" where
  "secondary_payload H tweet_id = fst (fetch_via_syndication H tweet_id no_net)"

definition syndication_url :: "string \<Rightarrow> string" where
  "syndication_url tweet_id = ''https://cdn.syndication.twimg.com/tweet-result?id='' @ tweet_id @ ''&token=0''"

text \<open>
  The block of the result file that the \<open>j\<close>-th completion appends: the user whose
  future ends \<open>j\<close>-th, the URLs its future gives in the state the loop has reached (none
  when it raises), and the counter.
\<close>

definition urls_or_empty :: "exn + string list \<Rightarrow> string list" where
  "urls_or_empty r = (case r of Inr us \<Rightarrow> us | Inl e \<Rightarrow> [])"

definition nth_block ::
  "(string \<Rightarrow> state \<Rightarrow> (exn + string list) \<times> state) \<Rightarrow> string list \<Rightarrow> nat list \<Rightarrow> sched \<Rightarrow> state \<Rightarrow> nat
   \<Rightarrow> string" where
  "nth_block run users order v s j =
     user_block (users ! (order ! j))
       (urls_or_empty (fst (run (users ! (order ! j)) (snd (completed_loop run users (take j order) v s)))))
       (completed_count v + j + 1) (length users)"

section \<open>Sample inputs\<close>



text \<open>
  JSON texts as the control surface prints them, and \<open>json.loads\<close> on these texts.
\<close>

definition quoted :: "string \<Rightarrow> string" where
  "quoted t = [CHR 0x22] @ t @ [CHR 0x22]"

definition old_post :: string where
  "old_post = ''https://x.com/u/status/1''"

definition new_post :: string where
  "new_post = ''https://x.com/u/status/2''"

definition page1_text :: string where
  "page1_text = ''['' @ quoted old_post @ '']''"

definition page2_text :: string where
  "page2_text = ''['' @ quoted old_post @ '', '' @ quoted new_post @ '']''"

definition nav_text :: string where
  "nav_text = ''{'' @ quoted ''ok'' @ '': true, '' @ quoted ''targetId'' @ '': '' @ quoted ''T'' @ ''}''"

definition sample_loads :: loads where
  "sample_loads t =
     (if t = page1_text then Some (JArr [JStr old_post])
      else if t = page2_text then Some (JArr [JStr old_post, JStr new_post])
      else if t = nav_text then Some (JObj [(''ok'', JBool True), (''targetId'', JStr ''T'')])
      else if t = ''[]'' then Some (JArr [])
      else None)"

definition ok_process :: "string \<Rightarrow> completed_process" where
  "ok_process out = \<lparr> returncode = 0, stdout = out, stderr = [] \<rparr>"

text \<open>
  A profile page already open (\<open>on_page\<close>) whose first extraction gives one post with
  id 1, and every later one that post and a second; the key presses between answer
  \<open>true\<close>. The program starts in January 2027.
\<close>

definition feed_world :: world where
  "feed_world =
     \<lparr> proc = (\<lambda>n. Completed (ok_process (if n = 0 then page1_text
                                           else if even n then page2_text else ''true'')) 100),
       rand = (\<lambda>n. 0), start_epoch_ms = 1800000000000 \<rparr>"

definition on_page :: state where
  "on_page = init_state\<lparr>target_id := Some (JStr ''T'')\<rparr>"

text \<open>A control surface that answers \<open>true\<close> to every command.\<close>

definition true_world :: world where
  "true_world = \<lparr> proc = (\<lambda>n. Completed (ok_process ''true'') 100), rand = (\<lambda>n. 0),
                   start_epoch_ms = 1800000000000 \<rparr>"

definition alice_post :: string where
  "alice_post = ''https://x.com/alice/status/1''"

text \<open>Three networks: the first source has the post, only the second has it, neither answers.\<close>

definition alice_status :: string where
  "alice_status = ''https://x.com/alice/status/123''"

definition alice_api :: string where
  "alice_api = ''https://api.fxtwitter.com/alice/status/123''"

definition tweet_payload :: json where
  "tweet_payload = JObj [(''code'', JInt 200), (''tweet'', JObj [(''text'', JStr ''hello'')])]"

definition text_payload :: json where
  "text_payload = JObj [(''text'', JStr ''hello'')]"

definition net_primary :: http where
  "net_primary u = Response 200 (Some tweet_payload)"

definition net_secondary :: http where
  "net_secondary u = (if u = alice_api then Response 500 None else Response 200 (Some text_payload))"

definition net_down :: http where
  "net_down u = RequestFailed ''connection refused''"

section \<open>Properties\<close>

subsection \<open>The output parser\<close>

text \<open>
  C8. The claim: for every raw output the parser returns a value without raising, and
  bare integer lines are read as typed results. On the output \<open>--5\<close> the code raises:
  \<open>lstrip('-')\<close> drops both dashes, \<open>isdigit\<close> holds of what is left, and \<open>int\<close> of the
  whole line is a \<open>ValueError\<close> that \<open>_parse_output\<close> does not catch.
\<close>

theorem parse_output_double_dash_raises:
  "fst (parse_output L ''--5'' s) = Inl (ValueError ''invalid literal for int() with base 10: --5'')"
  by (simp add: parse_output_def strip_def lstrip_def rstrip_def py_isspace_def decorations_def
      json_opener_def isdigit_def lstrip_chars_def is_digit_def ord_def py_int_def int_literal_def)

text \<open>
  C9. The value \<open>_parse_output\<close> returns is a function of the raw text alone: two
  clients in any two states get the same value, a second run on the same text gives
  the value of the first, and the run changes nothing of the state but the log.
\<close>

theorem parse_output_pure:
  "fst (parse_output L output s1) = fst (parse_output L output s2)
   \<and> fst (parse_output L output (snd (parse_output L output s1))) = fst (parse_output L output s1)
   \<and> restart_count (snd (parse_output L output s1)) = restart_count s1
   \<and> target_id (snd (parse_output L output s1)) = target_id s1
   \<and> issued (snd (parse_output L output s1)) = issued s1
   \<and> clock (snd (parse_output L output s1)) = clock s1
   \<and> draws (snd (parse_output L output s1)) = draws s1"
  by (simp add: parse_output_def log_msg_def Let_def split: scan.split option.split prod.split)

subsection \<open>What each step does to the counters\<close>

lemma log_msg_fields [simp]:
  "restart_count (log_msg lv m s) = restart_count s"
  "target_id (log_msg lv m s) = target_id s"
  "issued (log_msg lv m s) = issued s"
  "clock (log_msg lv m s) = clock s"
  "draws (log_msg lv m s) = draws s"
  "logged (log_msg lv m s) = logged s @ [(lv, m)]"
  by (simp_all add: log_msg_def)

lemma sleep_ms_fields [simp]:
  "restart_count (sleep_ms d s) = restart_count s"
  "target_id (sleep_ms d s) = target_id s"
  "issued (sleep_ms d s) = issued s"
  "clock (sleep_ms d s) = clock s + d"
  "draws (sleep_ms d s) = draws s"
  "logged (sleep_ms d s) = logged s"
  by (simp_all add: sleep_ms_def)

lemma stops_simps [simp]:
  "stops (log_msg lv m s) = stops s"
  "stops (sleep_ms d s) = stops s"
  "stops (s\<lparr>restart_count := n\<rparr>) = stops s"
  "stops (s\<lparr>target_id := t\<rparr>) = stops s"
  by (simp_all add: stops_def)

lemma run_command_fields [simp]:
  "restart_count (snd (run_command w args t s)) = restart_count s"
  "target_id (snd (run_command w args t s)) = target_id s"
  "issued (snd (run_command w args t s)) = issued s @ [args]"
  by (simp_all add: run_command_def Let_def split: proc_result.split)

lemma run_command_stops [simp]:
  "stops (snd (run_command w args t s)) = stops s + (if args = stop_cmd then 1 else 0)"
  by (simp add: stops_def)

lemma parse_output_fields [simp]:
  "restart_count (snd (parse_output L out s)) = restart_count s"
  "target_id (snd (parse_output L out s)) = target_id s"
  "issued (snd (parse_output L out s)) = issued s"
  by (simp_all add: parse_output_def Let_def split: scan.split option.split prod.split)

lemma parse_output_stops [simp]: "stops (snd (parse_output L out s)) = stops s"
  by (simp add: stops_def)

lemma check_status_fields [simp]:
  "restart_count (snd (check_status w s)) = restart_count s"
  "target_id (snd (check_status w s)) = target_id s"
  "stops (snd (check_status w s)) = stops s"
  by (simp_all add: check_status_def split_beta stop_cmd_def split: sum.split)



lemma restart_browser_target [simp]:
  "target_id (snd (restart_browser cfg w s)) = target_id s"
  by (simp add: restart_browser_def Let_def split_beta split: sum.split bool.split)

lemma restart_browser_exhausted:
  "browser_max_restarts cfg \<le> restart_count s \<Longrightarrow>
   fst (restart_browser cfg w s) = False \<and> issued (snd (restart_browser cfg w s)) = issued s"
  by (simp add: restart_browser_def)

subsection \<open>The restart budget\<close>




lemma decode_result_fields [simp]:
  "restart_count (snd (decode_result L v s)) = restart_count s"
  "target_id (snd (decode_result L v s)) = target_id s"
  "issued (snd (decode_result L v s)) = issued s"
  by (simp_all add: decode_result_def Let_def split: json.split option.split)

lemma decode_result_stops [simp]: "stops (snd (decode_result L v s)) = stops s"
  by (simp add: stops_def)














subsection \<open>The session handle\<close>

lemma wrap_response_nonempty: "wrap_response r \<noteq> []"
  by (cases r) (auto simp: reply_def dict_get_def)

lemma scan_lines_nonempty: "scan_lines ls i = Returned d \<Longrightarrow> d \<noteq> []"
  by (induction ls arbitrary: i) (auto simp: Let_def reply_def split: if_splits option.splits)

lemma parse_output_nonempty: "fst (parse_output L out s) \<noteq> Inr (Some [])"
  by (auto simp: parse_output_def Let_def wrap_response_nonempty
      split: scan.splits option.splits prod.splits dest: scan_lines_nonempty)

lemma execute_attempts_nonempty: "fst (execute_attempts L cfg w cmd as s) \<noteq> Some []"
proof (induction as arbitrary: s)
  case Nil
  then show ?case by simp
next
  case (Cons a as)
  show ?case
    using Cons.IH parse_output_nonempty
    by (auto simp: split_beta split: sum.splits exn.splits bool.splits if_splits)
qed

lemma evaluate_no_handle:
  "target_id s = Some JNull \<Longrightarrow>
   evaluate L cfg w js s = (Inr JNull, log_msg WARN ''No targetId available, cannot evaluate'' s)"
  by (simp add: evaluate_def)

lemma run_ops_no_handle:
  "target_id s = Some JNull \<Longrightarrow>
   fst (run_ops L cfg w (map Evaluate jss) s) = map (\<lambda>js. Value (Inr JNull)) jss
   \<and> issued (snd (run_ops L cfg w (map Evaluate jss) s)) = issued s
   \<and> target_id (snd (run_ops L cfg w (map Evaluate jss) s)) = Some JNull"
  by (induction jss arbitrary: s) (simp_all add: run_op_def evaluate_no_handle split_beta log_msg_def)

text \<open>
  C10. When the reply that \<open>navigate\<close> parses has no \<open>targetId\<close> field, \<open>navigate\<close>
  returns \<open>True\<close> and leaves the handle \<open>None\<close>; every \<open>evaluate\<close> of any list of calls
  that follow then returns \<open>None\<close>, and together they run no command.
\<close>

theorem navigate_without_target_id:
  "fst (execute_action L cfg w [''openclaw'', ''browser'', ''navigate'', ''--json'', url]
          (log_msg INFO (''Navigating to '' @ url) s)) = Some result
   \<Longrightarrow> map_of result ''targetId'' = None
   \<Longrightarrow> fst (navigate L cfg w url s)
       \<and> target_id (snd (navigate L cfg w url s)) = Some JNull
       \<and> fst (run_ops L cfg w (map Evaluate jss) (snd (navigate L cfg w url s)))
           = map (\<lambda>js. Value (Inr JNull)) jss
       \<and> issued (snd (run_ops L cfg w (map Evaluate jss) (snd (navigate L cfg w url s))))
           = issued (snd (navigate L cfg w url s))"
proof -
  assume r: "fst (execute_action L cfg w [''openclaw'', ''browser'', ''navigate'', ''--json'', url]
          (log_msg INFO (''Navigating to '' @ url) s)) = Some result"
    and t: "map_of result ''targetId'' = None"
  from r have ne: "result \<noteq> []"
    using execute_attempts_nonempty[of L cfg w _ "[1 .. browser_action_max_attempts cfg]"]
    by (auto simp: execute_action_def)
  have nav: "fst (navigate L cfg w url s) \<and> target_id (snd (navigate L cfg w url s)) = Some JNull"
    using r t ne by (simp add: navigate_def split_beta dict_get_def split: option.split)
  then show ?thesis
    using run_ops_no_handle[of "snd (navigate L cfg w url s)" L cfg w jss] by simp
qed

theorem navigate_without_target_id_witness:
  "fst (navigate sample_loads default_config true_world ''https://x.com/u'' init_state)
   \<and> target_id (snd (navigate sample_loads default_config true_world ''https://x.com/u'' init_state)) = Some JNull
   \<and> fst (run_ops sample_loads default_config true_world (map Evaluate [''a'', ''b''])
             (snd (navigate sample_loads default_config true_world ''https://x.com/u'' init_state)))
       = [Value (Inr JNull), Value (Inr JNull)]
   \<and> length (issued (snd (run_ops sample_loads default_config true_world (map Evaluate [''a'', ''b''])
             (snd (navigate sample_loads default_config true_world ''https://x.com/u'' init_state))))) = 1"
proof -
  have r: "fst (execute_action sample_loads default_config true_world
                 [''openclaw'', ''browser'', ''navigate'', ''--json'', ''https://x.com/u'']
                 (log_msg INFO (''Navigating to '' @ ''https://x.com/u'') init_state))
           = Some [(''ok'', JBool True), (''result'', JBool True)]"
    by code_simp
  have i: "length (issued (snd (navigate sample_loads default_config true_world ''https://x.com/u'' init_state))) = 1"
    by code_simp
  show ?thesis
    using navigate_without_target_id[OF r, of "[''a'', ''b'']"] i by simp
qed


subsection \<open>The scrolling loop\<close>

text \<open>
  C1. The claim: with the early stop enabled, the first scroll that has discovered a
  URL decodes the id of the first URL and stops the loop at once when it is older than
  a day. In \<open>feed_world\<close> the first scroll discovers the post with id 1, far older than
  a day in 2027, yet the loop goes on: seven commands run (four extractions, three key
  presses) and the second post, found by the second scroll, is returned too. The check
  stands in the branch of a scroll that found nothing new, where on scroll 1 \<open>urls\<close> is
  still empty.
\<close>

theorem early_stop_never_fires:
  "fst (scroll_and_collect sample_loads default_config feed_world ''u'' on_page) = Inr [old_post, new_post]
   \<and> length (issued (snd (scroll_and_collect sample_loads default_config feed_world ''u'' on_page))) = 7"
  by code_simp

subsection \<open>The report\<close>

text \<open>
  C5. The claim: each placeholder is replaced by the rendered content or by the
  unavailable section, and no placeholder text is left. For a report of one post,
  whatever the fetch and the formatter give, the text written ends with the
  placeholder's lines after the section of the post: the assignment replaces
  \<open>content[section_start]\<close>, the first of the four strings of the placeholder.
\<close>

theorem placeholder_left_over:
  "\<exists>section. fst (save_markdown api fmt [(''alice'', [alice_post])] ts [0] s)
     = concat (md_header ts [(''alice'', [alice_post])] @ user_heading ''alice'' 1)
       @ section @ fetching_line @ url_line alice_post @ rule_line"
  by (simp add: save_markdown_def place_users_def place_user_def place_post_def placeholder_def
        md_header_def user_heading_def fetch_content_def Let_def
        split: sum.split option.split prod.split)

subsection \<open>Fetching a post\<close>

lemma http_get_fst: "fst (http_get H api u n) = fst (http_get H api u no_net)"
  by (simp add: http_get_def Let_def split: http_result.split option.split)

lemma http_get_requests [simp]: "requests (snd (http_get H api u n)) = requests n @ [u]"
  by (simp add: http_get_def Let_def net_msg_def split: http_result.split option.split)

lemma net_msg_requests [simp]: "requests (net_msg lv m n) = requests n"
  by (simp add: net_msg_def)

lemma match_after_host_nonempty: "match_after_host word r = Some g \<Longrightarrow> g \<noteq> []"
  by (auto simp: match_after_host_def Let_def split: if_splits)

lemma re_search_nonempty: "re_search word t = Some g \<Longrightarrow> g \<noteq> []"
  by (induction t) (auto simp: match_here_def split: option.splits if_splits dest: match_after_host_nonempty)

lemma extract_tweet_id_nonempty: "extract_tweet_id url = Some g \<Longrightarrow> g \<noteq> []"
  by (auto simp: extract_tweet_id_def split: option.splits dest: re_search_nonempty)

text \<open>
  C7. Without an identifier in the URL, \<open>fetch_post\<close> returns \<open>None\<close> and requests
  nothing. With one, it asks the first source; if that payload has its marker (a truthy
  value under \<open>tweet\<close>) the result carries it and nothing else is requested; if not it
  asks the second source, whose payload is the result when it has its marker (a truthy
  value under \<open>text\<close>); when neither has, the result is \<open>None\<close>.
\<close>

theorem fetch_post_priority:
  "(extract_tweet_id url = None \<longrightarrow>
      fst (fetch_post H url n) = Inr None \<and> requests (snd (fetch_post H url n)) = requests n)
   \<and> (extract_tweet_id url = Some tweet_id \<and> has_marker (primary_payload H url) ''tweet'' = Inr True \<longrightarrow>
      fst (fetch_post H url n) = Inr (Some (primary_payload H url, ''fxtwitter''))
      \<and> requests (snd (fetch_post H url n)) = requests n @ [to_fxtwitter 0 url])
   \<and> (extract_tweet_id url = Some tweet_id \<and> has_marker (primary_payload H url) ''tweet'' = Inr False
       \<and> has_marker (secondary_payload H tweet_id) ''text'' = Inr True \<longrightarrow>
      fst (fetch_post H url n) = Inr (Some (secondary_payload H tweet_id, ''syndication''))
      \<and> requests (snd (fetch_post H url n)) = requests n @ [to_fxtwitter 0 url, syndication_url tweet_id])
   \<and> (extract_tweet_id url = Some tweet_id \<and> has_marker (primary_payload H url) ''tweet'' = Inr False
       \<and> has_marker (secondary_payload H tweet_id) ''text'' = Inr False \<longrightarrow>
      fst (fetch_post H url n) = Inr None
      \<and> requests (snd (fetch_post H url n)) = requests n @ [to_fxtwitter 0 url, syndication_url tweet_id])"
  using extract_tweet_id_nonempty[of url tweet_id]
    http_get_fst[of H "''fxtwitter''" "to_fxtwitter 0 url" n]
    http_get_fst[of H "''syndication''" "syndication_url tweet_id" "snd (http_get H ''fxtwitter'' (to_fxtwitter 0 url) n)"]
  by (auto simp: fetch_post_def primary_payload_def secondary_payload_def fetch_via_fxtwitter_def
      fetch_via_syndication_def syndication_url_def split_beta split: option.split sum.split bool.split)

theorem fetch_post_priority_witness:
  "extract_tweet_id ''https://x.com/alice'' = None
   \<and> fst (fetch_post net_down ''https://x.com/alice'' no_net) = Inr None
   \<and> requests (snd (fetch_post net_down ''https://x.com/alice'' no_net)) = []
   \<and> extract_tweet_id alice_status = Some ''123''
   \<and> fst (fetch_post net_primary alice_status no_net) = Inr (Some (tweet_payload, ''fxtwitter''))
   \<and> requests (snd (fetch_post net_primary alice_status no_net)) = [alice_api]
   \<and> fst (fetch_post net_secondary alice_status no_net) = Inr (Some (text_payload, ''syndication''))
   \<and> requests (snd (fetch_post net_secondary alice_status no_net)) = [alice_api, syndication_url ''123'']
   \<and> fst (fetch_post net_down alice_status no_net) = Inr None
   \<and> requests (snd (fetch_post net_down alice_status no_net)) = [alice_api, syndication_url ''123'']"
proof -
  have e0: "extract_tweet_id ''https://x.com/alice'' = None" by code_simp
  have e1: "extract_tweet_id alice_status = Some ''123''" by code_simp
  have u: "to_fxtwitter 0 alice_status = alice_api" by code_simp
  have p1: "has_marker (primary_payload net_primary alice_status) ''tweet'' = Inr True" by code_simp
  have p2: "has_marker (primary_payload net_secondary alice_status) ''tweet'' = Inr False" by code_simp
  have p3: "has_marker (secondary_payload net_secondary ''123'') ''text'' = Inr True" by code_simp
  have p4: "has_marker (primary_payload net_down alice_status) ''tweet'' = Inr False" by code_simp
  have p5: "has_marker (secondary_payload net_down ''123'') ''text'' = Inr False" by code_simp
  have v1: "primary_payload net_primary alice_status = tweet_payload" by code_simp
  have v2: "secondary_payload net_secondary ''123'' = text_payload" by code_simp
  show ?thesis
    using fetch_post_priority[of "''https://x.com/alice''" net_down no_net "''123''"]
      fetch_post_priority[of alice_status net_primary no_net "''123''"]
      fetch_post_priority[of alice_status net_secondary no_net "''123''"]
      fetch_post_priority[of alice_status net_down no_net "''123''"]
      e0 e1 u p1 p2 p3 p4 p5 v1 v2
    by (simp add: no_net_def)
qed

subsection \<open>The scheduler\<close>

lemma completed_loop_append:
  "completed_loop run users (xs @ ys) v s =
     (case completed_loop run users xs v s of (v1, s1) \<Rightarrow> completed_loop run users ys v1 s1)"
  by (induction xs arbitrary: v s) (simp_all add: Let_def split: prod.split sum.split)

lemma completed_loop_count:
  "list_all (\<lambda>k. k < length users) order \<Longrightarrow>
   completed_count (fst (completed_loop run users order v s)) = completed_count v + length order"
  by (induction order arbitrary: v s) (simp_all add: Let_def split: prod.split sum.split)

lemma completed_loop_journal:
  "list_all (\<lambda>k. k < length users) order \<Longrightarrow>
   txt_body (fst (completed_loop run users order v s))
     = txt_body v @ concat (map (nth_block run users order v s) [0 ..< length order])"
proof (induction order rule: rev_induct)
  case Nil
  then show ?case by simp
next
  case (snoc k order)
  then have valid: "list_all (\<lambda>k. k < length users) order" and k: "k < length users" by simp_all
  have blocks: "map (nth_block run users (order @ [k]) v s) [0 ..< length order]
                = map (nth_block run users order v s) [0 ..< length order]"
    by (rule map_cong) (simp_all add: nth_block_def nth_append)
  have final: "nth_block run users (order @ [k]) v s (length order)
               = user_block (users ! k)
                   (urls_or_empty (fst (run (users ! k) (snd (completed_loop run users order v s)))))
                   (completed_count v + length order + 1) (length users)"
    by (simp add: nth_block_def)
  have step: "txt_body (fst (completed_loop run users (order @ [k]) v s))
              = txt_body (fst (completed_loop run users order v s))
                @ nth_block run users (order @ [k]) v s (length order)"
    unfolding final
    using k completed_loop_count[OF valid, of run v s]
    by (simp add: completed_loop_append split_beta Let_def append_user_results_def
        urls_or_empty_def split: sum.split)
  show ?case
    by (simp add: step snoc.IH[OF valid] blocks)
qed

end
